theory Spec2Isabelle
  imports Complex_Main "HOL-Library.Log_Nat"
begin

section \<open>The sentiment KPI gauge builder of analisis_sent.py\<close>

text \<open>
  The module has one function, \<^verbatim>\<open>grafico_kpi_sentimiento\<close>, which turns three
  sentiment counts into the description of a gauge figure. It is embedded here as a HOL
  function from its seven arguments to either an error or a figure.

  Conventions of the embedding:
  \<^item> Python's \<^verbatim>\<open>int\<close> is \<open>int\<close> (unbounded).
  \<^item> Python's \<^verbatim>\<open>float\<close> is an IEEE 754 double. A finite double is a rational, so a
    float is a \<open>rat\<close>, and every operation on floats is the exact operation followed by
    rounding to the nearest double (\<open>round_double\<close>). The literal \<^verbatim>\<open>0.7\<close> is the double
    nearest to 7/10.
  \<^item> \<^verbatim>\<open>raise\<close> and a failing list index are values \<open>Inl e\<close> of a sum type; a figure
    is \<open>Inr fig\<close>.
  \<^item> The dictionaries handed to the charting library have fixed keys, so each one is a
    record; the library's constructors only store what they are given.
  \<^item> The formatted fields of the f-string of the breakdown text are kept as a list of
    pieces, each naming the conversion the f-string applies.
\<close>

subsection \<open>Errors and list indexing\<close>

datatype error = ValueError string | IndexError

text \<open>Sequencing of fallible steps: the first error ends the computation.\<close>

definition bind_result :: "error + 'a \<Rightarrow> ('a \<Rightarrow> error + 'b) \<Rightarrow> error + 'b" where
  "bind_result r f = (case r of Inl e \<Rightarrow> Inl e | Inr v \<Rightarrow> f v)"

text \<open>\<^verbatim>\<open>xs[i]\<close> for a literal index \<open>i \<ge> 0\<close>: IndexError when out of range.\<close>

definition py_index :: "'a list \<Rightarrow> nat \<Rightarrow> error + 'a" where
  "py_index xs i = (if i < length xs then Inr (xs ! i) else Inl IndexError)"

subsection \<open>Floating-point numbers\<close>

text \<open>
  A finite double is \<open>m * 2^k\<close> with \<open>\<bar>m\<bar> < 2^53\<close> and \<open>k \<ge> -1074\<close>. Rounding a rational
  \<open>x \<noteq> 0\<close> takes the exponent \<open>e\<close> with \<open>2^e \<le> \<bar>x\<bar> < 2^(e+1)\<close>, not below -1022 (the
  subnormal numbers share the exponent -1022), and rounds \<open>x\<close> to the nearest multiple
  of \<open>2^(e-52)\<close>, a tie going to the even multiple.

  There is no largest exponent: where a result reaches \<open>2^1024\<close> Python raises
  OverflowError (for \<^verbatim>\<open>int / int\<close>) or yields an infinity, and the model yields a number
  instead. The quotient count / total is at most 1 for non-negative counts. Infinities
  and NaN are no values of \<open>rat\<close>.
\<close>

text \<open>The exponent \<open>e\<close> with \<open>2^e \<le> x < 2^(e+1)\<close>, for \<open>x > 0\<close>.\<close>

definition floor_log2 :: "rat \<Rightarrow> int" where
  "floor_log2 x = (if 1 \<le> x then bitlen \<lfloor>x\<rfloor> - 1 else - bitlen (\<lceil>1 / x\<rceil> - 1))"

text \<open>The nearest integer, a tie going to the even one.\<close>

definition round_half_even :: "rat \<Rightarrow> int" where
  "round_half_even y =
     (let f = \<lfloor>y\<rfloor>; r = y - of_int f in
      if r < 1 / 2 then f
      else if 1 / 2 < r then f + 1
      else if even f then f else f + 1)"

definition round_double :: "rat \<Rightarrow> rat" where
  "round_double x =
     (if x = 0 then 0
      else let e = max (floor_log2 \<bar>x\<bar>) (- 1022);
               u = 2 powi (e - 52)
           in of_int (round_half_even (x / u)) * u)"

text \<open>
  \<^verbatim>\<open>a / b\<close> on two ints is the correctly rounded quotient; \<^verbatim>\<open>x * y\<close> and \<^verbatim>\<open>x + y\<close> on
  floats are the correctly rounded product and sum. The divisor is not zero wherever the
  source divides.
\<close>

definition int_truediv :: "int \<Rightarrow> int \<Rightarrow> rat" where
  "int_truediv a b = round_double (of_int a / of_int b)"

definition float_mul :: "rat \<Rightarrow> rat \<Rightarrow> rat" where
  "float_mul x y = round_double (x * y)"

definition float_add :: "rat \<Rightarrow> rat \<Rightarrow> rat" where
  "float_add x y = round_double (x + y)"

text \<open>The literal \<^verbatim>\<open>0.7\<close> of line 53.\<close>

definition float_0_7 :: rat where
  "float_0_7 = round_double (7 / 10)"

subsection \<open>The figure description\<close>

record font =
  font_family :: "string option"
  font_size :: "int option"
  font_color :: "string option"

record title_cfg =
  title_text :: string
  title_font :: font

record number_cfg =
  number_suffix :: string
  number_font :: font

record delta_cfg =
  delta_reference :: rat
  delta_increasing_color :: string
  delta_decreasing_color :: string
  delta_suffix :: string
  delta_font :: font

record axis_cfg =
  axis_range :: "int list"
  axis_tickwidth :: int
  axis_tickcolor :: string
  axis_tickmode :: string
  axis_tick0 :: int
  axis_dtick :: int

record bar_cfg =
  bar_color :: string
  bar_thickness :: rat

record step =
  step_range :: "int list"
  step_color :: string

record threshold_cfg =
  threshold_line_color :: string
  threshold_line_width :: int
  threshold_thickness :: rat
  threshold_value :: rat

record gauge_cfg =
  gauge_axis :: axis_cfg
  gauge_bar :: bar_cfg
  gauge_bgcolor :: string
  gauge_borderwidth :: int
  gauge_bordercolor :: string
  gauge_steps :: "step list"
  gauge_threshold :: threshold_cfg

record indicator =
  ind_mode :: string
  ind_value :: rat
  ind_domain_x :: "rat list"
  ind_domain_y :: "rat list"
  ind_title :: title_cfg
  ind_number :: number_cfg
  ind_delta :: delta_cfg
  ind_gauge :: gauge_cfg

text \<open>
  A piece of the f-string of the breakdown: literal text, one code point outside ASCII,
  \<^verbatim>\<open>{n}\<close> for an int, \<^verbatim>\<open>{x:.1f}\<close> for a float, \<^verbatim>\<open>{x}\<close> for a float.
\<close>

datatype piece =
  Lit string
  | CodePoint nat
  | FmtInt int
  | FmtFixed1 rat
  | FmtFloat rat

record annotation =
  ann_text :: "piece list"
  ann_xref :: string
  ann_yref :: string
  ann_x :: rat
  ann_y :: rat
  ann_showarrow :: bool
  ann_font :: font
  ann_align :: string
  ann_bgcolor :: string
  ann_bordercolor :: string
  ann_borderwidth :: int
  ann_borderpad :: int

record margin =
  margin_l :: int
  margin_r :: int
  margin_t :: int
  margin_b :: int

record layout =
  lay_annotations :: "annotation list"
  lay_height :: "int option"
  lay_margin :: "margin option"
  lay_paper_bgcolor :: "string option"
  lay_font :: "font option"

record figure =
  fig_data :: "indicator list"
  fig_layout :: layout

text \<open>\<^verbatim>\<open>go.Figure(trace)\<close>: one trace, nothing set in the layout.\<close>

definition Figure :: "indicator \<Rightarrow> figure" where
  "Figure tr =
     \<lparr>fig_data = [tr],
      fig_layout = \<lparr>lay_annotations = [], lay_height = None, lay_margin = None,
                    lay_paper_bgcolor = None, lay_font = None\<rparr>\<rparr>"

text \<open>\<^verbatim>\<open>fig.add_annotation(...)\<close> appends to the annotations of the layout.\<close>

definition add_annotation :: "figure \<Rightarrow> annotation \<Rightarrow> figure" where
  "add_annotation fig a =
     fig\<lparr>fig_layout := (fig_layout fig)\<lparr>lay_annotations := lay_annotations (fig_layout fig) @ [a]\<rparr>\<rparr>"

text \<open>\<^verbatim>\<open>fig.update_layout(height=, margin=, paper_bgcolor=, font=)\<close> sets these four keys.\<close>

definition update_layout :: "figure \<Rightarrow> int \<Rightarrow> margin \<Rightarrow> string \<Rightarrow> font \<Rightarrow> figure" where
  "update_layout fig h m bg f =
     fig\<lparr>fig_layout := (fig_layout fig)\<lparr>lay_height := Some h, lay_margin := Some m,
                                          lay_paper_bgcolor := Some bg, lay_font := Some f\<rparr>\<rparr>"

subsection \<open>The builder\<close>

text \<open>Lines 31-36: the colours used when \<^verbatim>\<open>colores_gauge\<close> is \<^verbatim>\<open>None\<close>.\<close>

definition colores_default :: "string list" where
  "colores_default = [''#e74c3c'', ''#f39c12'', ''#2ecc71'']"

definition colores_en_uso :: "string list option \<Rightarrow> string list" where
  "colores_en_uso colores_gauge =
     (case colores_gauge of None \<Rightarrow> colores_default | Some cs \<Rightarrow> cs)"

text \<open>
  Lines 39-47: the total, the zero check and the three percentages. In
  \<^verbatim>\<open>(positivos / total) * 100\<close> the quotient is a float and the int 100 becomes the float
  100.0, which is exact.
\<close>

record metricas =
  total :: int
  pct_positivo :: rat
  pct_negativo :: rat
  pct_neutro :: rat

definition calculo_metricas :: "int \<Rightarrow> int \<Rightarrow> int \<Rightarrow> error + metricas" where
  "calculo_metricas positivos negativos neutros =
     (let tot = positivos + negativos + neutros in
      if tot = 0 then Inl (ValueError ''El total de sentimientos no puede ser 0'')
      else Inr \<lparr>total = tot,
                pct_positivo = float_mul (int_truediv positivos tot) 100,
                pct_negativo = float_mul (int_truediv negativos tot) 100,
                pct_neutro = float_mul (int_truediv neutros tot) 100\<rparr>)"

text \<open>Lines 51-56: the colour of the bar, by the position of the percentage against the target.\<close>

definition color_barra :: "rat \<Rightarrow> rat \<Rightarrow> string list \<Rightarrow> error + string" where
  "color_barra pct objetivo_positivo colores =
     (if pct \<ge> objetivo_positivo then py_index colores 2
      else if pct \<ge> float_mul objetivo_positivo float_0_7 then py_index colores 1
      else py_index colores 0)"

text \<open>Lines 104-108: the three background zones, written as literals in the source.\<close>

definition zonas_fondo :: "step list" where
  "zonas_fondo =
     [\<lparr>step_range = [0, 40], step_color = ''rgba(231, 76, 60, 0.2)''\<rparr>,
      \<lparr>step_range = [40, 70], step_color = ''rgba(243, 156, 18, 0.2)''\<rparr>,
      \<lparr>step_range = [70, 100], step_color = ''rgba(46, 204, 113, 0.2)''\<rparr>]"

text \<open>Lines 59-117: the indicator trace, from the values computed so far.\<close>

definition crear_gauge :: "rat \<Rightarrow> rat \<Rightarrow> string \<Rightarrow> string \<Rightarrow> string \<Rightarrow> string \<Rightarrow> indicator" where
  "crear_gauge pct objetivo_positivo titulo barra creciente decreciente =
     \<lparr>ind_mode = ''gauge+number+delta'',
      ind_value = pct,
      ind_domain_x = [0, 1],
      ind_domain_y = [1 / 10, 1],
      ind_title = \<lparr>title_text = titulo,
                   title_font = \<lparr>font_family = None, font_size = Some 26,
                                 font_color = Some ''#2c3e50''\<rparr>\<rparr>,
      ind_number = \<lparr>number_suffix = ''%'',
                    number_font = \<lparr>font_family = None, font_size = Some 50,
                                   font_color = Some barra\<rparr>\<rparr>,
      ind_delta = \<lparr>delta_reference = objetivo_positivo,
                   delta_increasing_color = creciente,
                   delta_decreasing_color = decreciente,
                   delta_suffix = ''%'',
                   delta_font = \<lparr>font_family = None, font_size = Some 20, font_color = None\<rparr>\<rparr>,
      ind_gauge = \<lparr>gauge_axis = \<lparr>axis_range = [0, 100], axis_tickwidth = 2,
                                 axis_tickcolor = ''darkgray'', axis_tickmode = ''linear'',
                                 axis_tick0 = 0, axis_dtick = 20\<rparr>,
                   gauge_bar = \<lparr>bar_color = barra, bar_thickness = 3 / 4\<rparr>,
                   gauge_bgcolor = ''white'',
                   gauge_borderwidth = 3,
                   gauge_bordercolor = ''#34495e'',
                   gauge_steps = zonas_fondo,
                   gauge_threshold = \<lparr>threshold_line_color = ''#e74c3c'',
                                      threshold_line_width = 4,
                                      threshold_thickness = 3 / 4,
                                      threshold_value = objetivo_positivo\<rparr>\<rparr>\<rparr>"

text \<open>
  Lines 121-127: the text of the breakdown. The three marks before the category names are
  the code points U+2705, U+274C and U+26AA.
\<close>

definition desglose_texto :: "int \<Rightarrow> int \<Rightarrow> int \<Rightarrow> metricas \<Rightarrow> rat \<Rightarrow> piece list" where
  "desglose_texto positivos negativos neutros m objetivo_positivo =
     [Lit ''<b>Desglose Total: '', FmtInt (total m), Lit ''</b><br>'',
      CodePoint 0x2705, Lit '' Positivos: '', FmtInt positivos, Lit '' ('',
        FmtFixed1 (pct_positivo m), Lit ''%)<br>'',
      CodePoint 0x274C, Lit '' Negativos: '', FmtInt negativos, Lit '' ('',
        FmtFixed1 (pct_negativo m), Lit ''%)<br>'',
      CodePoint 0x26AA, Lit '' Neutros: '', FmtInt neutros, Lit '' ('',
        FmtFixed1 (pct_neutro m), Lit ''%)<br>'',
      Lit ''<b>Objetivo: '', FmtFloat objetivo_positivo, Lit ''%</b>'']"

text \<open>Lines 129-140: the annotation that carries the breakdown.\<close>

definition anotacion_desglose :: "piece list \<Rightarrow> annotation" where
  "anotacion_desglose txt =
     \<lparr>ann_text = txt,
      ann_xref = ''paper'', ann_yref = ''paper'',
      ann_x = 1 / 2, ann_y = - (1 / 4),
      ann_showarrow = False,
      ann_font = \<lparr>font_family = None, font_size = Some 14, font_color = Some ''#34495e''\<rparr>,
      ann_align = ''center'',
      ann_bgcolor = ''rgba(255, 255, 255, 0.9)'',
      ann_bordercolor = ''#bdc3c7'',
      ann_borderwidth = 2,
      ann_borderpad = 10\<rparr>"

text \<open>Lines 143-148: the final layout.\<close>

definition layout_final :: "figure \<Rightarrow> figure" where
  "layout_final fig =
     update_layout fig 550
       \<lparr>margin_l = 40, margin_r = 40, margin_t = 80, margin_b = 150\<rparr>
       ''white''
       \<lparr>font_family = Some ''Arial, sans-serif'', font_size = None, font_color = None\<rparr>"

text \<open>
  Lines 5-150, in the order the source evaluates them: colours, metrics (or ValueError),
  bar colour (one index into the colours), the indicator (whose delta indexes the
  colours at 2 and then at 0), the optional annotation, the layout.
\<close>

definition grafico_kpi_sentimiento ::
  "int \<Rightarrow> int \<Rightarrow> int \<Rightarrow> rat \<Rightarrow> string \<Rightarrow> bool \<Rightarrow> string list option \<Rightarrow> error + figure" where
  "grafico_kpi_sentimiento positivos negativos neutros objetivo_positivo titulo
       mostrar_desglose colores_gauge =
     (let colores = colores_en_uso colores_gauge in
      bind_result (calculo_metricas positivos negativos neutros) (\<lambda>m.
      bind_result (color_barra (pct_positivo m) objetivo_positivo colores) (\<lambda>barra.
      bind_result (py_index colores 2) (\<lambda>creciente.
      bind_result (py_index colores 0) (\<lambda>decreciente.
        let fig = Figure (crear_gauge (pct_positivo m) objetivo_positivo titulo
                            barra creciente decreciente);
            fig = (if mostrar_desglose
                   then add_annotation fig
                          (anotacion_desglose
                             (desglose_texto positivos negativos neutros m objetivo_positivo))
                   else fig)
        in Inr (layout_final fig))))))"

text \<open>The defaults of the optional parameters (lines 9-12).\<close>

definition objetivo_por_defecto :: rat where
  "objetivo_por_defecto = 70"

definition titulo_por_defecto :: string where
  "titulo_por_defecto = ''KPI: Sentimiento Positivo''"

subsection \<open>Reading a result\<close>

text \<open>The traces of a result: the one indicator of a figure, none for an error.\<close>

definition indicador_de :: "error + figure \<Rightarrow> indicator list" where
  "indicador_de r = (case r of Inl e \<Rightarrow> [] | Inr fig \<Rightarrow> fig_data fig)"

text \<open>
  The difference that a \<^verbatim>\<open>gauge+number+delta\<close> indicator shows next to its number: the
  value minus the reference of the delta. The driver prints the same quantity
  (\<^verbatim>\<open>porcentaje_actual - OBJETIVO\<close>, line 206).
\<close>

definition diferencia :: "indicator \<Rightarrow> rat" where
  "diferencia ind = ind_value ind - delta_reference (ind_delta ind)"

subsection \<open>What the specification asks of the background zones\<close>

text \<open>
  The specification tints each zone with a partial-opacity version of a colour of the
  scheme. For a colour written \<^verbatim>\<open>#rrggbb\<close> that is the string
  \<^verbatim>\<open>rgba(r, g, b, 0.2)\<close> with the three bytes in decimal and the opacity of the source's
  literals. This function follows the specification, not the source; it is there to be
  compared with \<open>zonas_fondo\<close>.
\<close>

definition hex_digit :: "char \<Rightarrow> nat option" where
  "hex_digit c =
     (let k = (of_char c :: nat) in
      if 48 \<le> k \<and> k \<le> 57 then Some (k - 48)
      else if 97 \<le> k \<and> k \<le> 102 then Some (k - 87)
      else if 65 \<le> k \<and> k \<le> 70 then Some (k - 55)
      else None)"

definition hex_byte :: "char \<Rightarrow> char \<Rightarrow> nat option" where
  "hex_byte hi lo =
     (case (hex_digit hi, hex_digit lo) of
        (Some h, Some l) \<Rightarrow> Some (16 * h + l)
      | _ \<Rightarrow> None)"

fun rgb_de_hex :: "string \<Rightarrow> (nat \<times> nat \<times> nat) option" where
  "rgb_de_hex [h, r1, r2, g1, g2, b1, b2] =
     (if h = CHR ''#'' then
        (case (hex_byte r1 r2, hex_byte g1 g2, hex_byte b1 b2) of
           (Some r, Some g, Some b) \<Rightarrow> Some (r, g, b)
         | _ \<Rightarrow> None)
      else None)"
| "rgb_de_hex _ = None"

fun dec_nat :: "nat \<Rightarrow> string" where
  "dec_nat n = (if n < 10 then [char_of (48 + n)]
                else dec_nat (n div 10) @ [char_of (48 + n mod 10)])"

definition spec_tinte :: "string \<Rightarrow> string option" where
  "spec_tinte c =
     (case rgb_de_hex c of
        None \<Rightarrow> None
      | Some (r, g, b) \<Rightarrow>
          Some (''rgba('' @ dec_nat r @ '', '' @ dec_nat g @ '', '' @ dec_nat b @ '', 0.2)''))"

text \<open>The colours of the commented-out \<^verbatim>\<open>MIS_COLORES\<close> of line 169.\<close>

definition MIS_COLORES :: "string list" where
  "MIS_COLORES = [''#ff6b6b'', ''#ffd93d'', ''#6bcf7f'']"

section \<open>Properties\<close>

subsection \<open>Rounding to a double\<close>

lemma pow2_nat_le_rat:
  fixes n :: int
  assumes "2 ^ k \<le> n"
  shows "(2::rat) ^ k \<le> of_int n"
proof -
  have "(of_int ((2::int) ^ k) :: rat) \<le> of_int n"
    using assms by (simp only: of_int_le_iff)
  then show ?thesis by simp
qed

lemma rat_le_pow2_nat:
  fixes n :: int
  assumes "n \<le> 2 ^ k"
  shows "(of_int n :: rat) \<le> 2 ^ k"
proof -
  have "(of_int n :: rat) \<le> of_int ((2::int) ^ k)"
    using assms by (simp only: of_int_le_iff)
  then show ?thesis by simp
qed

lemma powi_nonneg_nat: "0 \<le> k \<Longrightarrow> (2::rat) powi k = 2 ^ nat k"
  by (simp add: power_int_def)

lemma powi_neg_nat: "0 \<le> k \<Longrightarrow> (2::rat) powi (- k) = 1 / 2 ^ nat k"
  by (simp only: power_int_minus_divide powi_nonneg_nat)

text \<open>The exponent brackets its argument.\<close>

lemma floor_log2_le:
  assumes "0 < x"
  shows "2 powi (floor_log2 x) \<le> x"
proof (cases "1 \<le> x")
  case True
  then have n: "0 < \<lfloor>x\<rfloor>" by simp
  have nn: "0 \<le> bitlen \<lfloor>x\<rfloor> - 1" using n by (simp add: bitlen_alt_def)
  have e: "floor_log2 x = bitlen \<lfloor>x\<rfloor> - 1" using True by (simp add: floor_log2_def)
  have "(2::int) ^ nat (bitlen \<lfloor>x\<rfloor> - 1) \<le> \<lfloor>x\<rfloor>" using bitlen_bounds[OF n] by simp
  then have "(2::rat) ^ nat (bitlen \<lfloor>x\<rfloor> - 1) \<le> of_int \<lfloor>x\<rfloor>" by (rule pow2_nat_le_rat)
  also have "\<dots> \<le> x" by simp
  finally show ?thesis unfolding e powi_nonneg_nat[OF nn] .
next
  case False
  then have x1: "x < 1" by simp
  define n where "n = \<lceil>1 / x\<rceil> - 1"
  have e: "floor_log2 x = - bitlen n" using False by (simp add: floor_log2_def n_def)
  have "1 < 1 / x" using assms x1 by simp
  then have "1 < \<lceil>1 / x\<rceil>" by (simp add: less_ceiling_iff)
  then have n: "0 < n" unfolding n_def by simp
  have "n < 2 ^ nat (bitlen n)" using bitlen_bounds[OF n] by simp
  then have "n + 1 \<le> 2 ^ nat (bitlen n)" by simp
  then have "(of_int (n + 1) :: rat) \<le> 2 ^ nat (bitlen n)" by (rule rat_le_pow2_nat)
  moreover have "1 / x \<le> of_int (n + 1)" unfolding n_def by simp
  ultimately have "1 / x \<le> 2 ^ nat (bitlen n)" by linarith
  then have "1 \<le> 2 ^ nat (bitlen n) * x" using assms by (simp add: pos_divide_le_eq)
  then have "1 / 2 ^ nat (bitlen n) \<le> x" by (simp add: pos_divide_le_eq mult.commute)
  then show ?thesis unfolding e powi_neg_nat[OF bitlen_nonneg] .
qed

lemma floor_log2_gt:
  assumes "0 < x"
  shows "x < 2 powi (floor_log2 x + 1)"
proof (cases "1 \<le> x")
  case True
  then have n: "0 < \<lfloor>x\<rfloor>" by simp
  have nn: "0 \<le> bitlen \<lfloor>x\<rfloor>" by (rule bitlen_nonneg)
  have e: "floor_log2 x + 1 = bitlen \<lfloor>x\<rfloor>" using True by (simp add: floor_log2_def)
  have "\<lfloor>x\<rfloor> < 2 ^ nat (bitlen \<lfloor>x\<rfloor>)" using bitlen_bounds[OF n] by simp
  then have "\<lfloor>x\<rfloor> + 1 \<le> 2 ^ nat (bitlen \<lfloor>x\<rfloor>)" by simp
  then have "(of_int (\<lfloor>x\<rfloor> + 1) :: rat) \<le> 2 ^ nat (bitlen \<lfloor>x\<rfloor>)" by (rule rat_le_pow2_nat)
  moreover have "x < of_int (\<lfloor>x\<rfloor> + 1)" by linarith
  ultimately have "x < 2 ^ nat (bitlen \<lfloor>x\<rfloor>)" by linarith
  then show ?thesis unfolding e powi_nonneg_nat[OF nn] .
next
  case False
  then have x1: "x < 1" by simp
  define n where "n = \<lceil>1 / x\<rceil> - 1"
  have "1 < 1 / x" using assms x1 by simp
  then have "1 < \<lceil>1 / x\<rceil>" by (simp add: less_ceiling_iff)
  then have n: "0 < n" unfolding n_def by simp
  have b1: "0 \<le> bitlen n - 1" using n by (simp add: bitlen_alt_def)
  have e: "floor_log2 x + 1 = - (bitlen n - 1)" using False by (simp add: floor_log2_def n_def)
  have "(2::int) ^ nat (bitlen n - 1) \<le> n" using bitlen_bounds[OF n] by simp
  then have "(2::rat) ^ nat (bitlen n - 1) \<le> of_int n" by (rule pow2_nat_le_rat)
  moreover have "of_int n < 1 / x" unfolding n_def by linarith
  ultimately have "(2::rat) ^ nat (bitlen n - 1) < 1 / x" by linarith
  then have "2 ^ nat (bitlen n - 1) * x < 1" using assms by (simp add: pos_less_divide_eq)
  then have "x < 1 / 2 ^ nat (bitlen n - 1)" by (simp add: pos_less_divide_eq mult.commute)
  then show ?thesis unfolding e powi_neg_nat[OF b1] .
qed

lemma round_half_even_cases:
  "round_half_even y = \<lfloor>y\<rfloor> \<and> y - of_int \<lfloor>y\<rfloor> \<le> 1 / 2 \<or>
   round_half_even y = \<lfloor>y\<rfloor> + 1 \<and> 1 / 2 \<le> y - of_int \<lfloor>y\<rfloor>"
  unfolding round_half_even_def Let_def by (simp add: not_less)

lemma round_half_even_err: "\<bar>of_int (round_half_even y) - y\<bar> \<le> 1 / 2"
proof -
  have f: "of_int \<lfloor>y\<rfloor> \<le> y" "y < of_int \<lfloor>y\<rfloor> + 1" by linarith+
  from round_half_even_cases[of y] show ?thesis
  proof
    assume a: "round_half_even y = \<lfloor>y\<rfloor> \<and> y - of_int \<lfloor>y\<rfloor> \<le> 1 / 2"
    then have "of_int (round_half_even y) - y = of_int \<lfloor>y\<rfloor> - y" by simp
    with a f show ?thesis by linarith
  next
    assume a: "round_half_even y = \<lfloor>y\<rfloor> + 1 \<and> 1 / 2 \<le> y - of_int \<lfloor>y\<rfloor>"
    then have "of_int (round_half_even y) - y = of_int \<lfloor>y\<rfloor> + 1 - y" by simp
    with a f show ?thesis by linarith
  qed
qed

lemma round_half_even_of_int: "round_half_even (of_int k) = k"
  by (simp add: round_half_even_def)

lemma round_half_even_le:
  assumes "y \<le> of_int k"
  shows "round_half_even y \<le> k"
proof (cases "y = of_int k")
  case True
  then show ?thesis by (simp add: round_half_even_of_int)
next
  case False
  with assms have "y < of_int k" by simp
  then have "\<lfloor>y\<rfloor> < k" by (simp add: floor_less_iff)
  then have "\<lfloor>y\<rfloor> + 1 \<le> k" by simp
  with round_half_even_cases[of y] show ?thesis by linarith
qed

lemma round_half_even_ge:
  assumes "of_int k \<le> y"
  shows "k \<le> round_half_even y"
proof -
  have "k \<le> \<lfloor>y\<rfloor>" using assms by (simp add: le_floor_iff)
  with round_half_even_cases[of y] show ?thesis by linarith
qed

lemma round_double_unfold:
  assumes "x \<noteq> 0"
  shows "round_double x =
           of_int (round_half_even (x / 2 powi (max (floor_log2 \<bar>x\<bar>) (- 1022) - 52)))
             * 2 powi (max (floor_log2 \<bar>x\<bar>) (- 1022) - 52)"
  using assms by (simp add: round_double_def Let_def)

lemma round_to_grid_err:
  fixes u :: rat
  assumes "0 < u"
  shows "\<bar>of_int (round_half_even (x / u)) * u - x\<bar> \<le> u / 2"
proof -
  have "of_int (round_half_even (x / u)) * u - x = (of_int (round_half_even (x / u)) - x / u) * u"
    using assms by (simp add: left_diff_distrib)
  then have "\<bar>of_int (round_half_even (x / u)) * u - x\<bar> = \<bar>of_int (round_half_even (x / u)) - x / u\<bar> * u"
    using assms by (simp add: abs_mult)
  also have "\<dots> \<le> (1 / 2) * u"
    using round_half_even_err[of "x / u"] assms by (intro mult_right_mono) simp_all
  finally show ?thesis by simp
qed

text \<open>The error of one rounding: relative 2^-53, or absolute 2^-1075 among the subnormals.\<close>

lemma round_double_err:
  "\<bar>round_double x - x\<bar> \<le> \<bar>x\<bar> / 2 ^ 53 + 2 powi (- 1075)"
proof (cases "x = 0")
  case True
  then show ?thesis by (simp add: round_double_def)
next
  case False
  define e where "e = max (floor_log2 \<bar>x\<bar>) (- 1022)"
  define u :: rat where "u = 2 powi (e - 52)"
  have u: "0 < u" unfolding u_def by simp
  have r: "round_double x = of_int (round_half_even (x / u)) * u"
    unfolding u_def e_def by (rule round_double_unfold[OF False])
  have h: "\<bar>round_double x - x\<bar> \<le> u / 2" unfolding r by (rule round_to_grid_err[OF u])
  have x: "0 < \<bar>x\<bar>" using False by simp
  show ?thesis
  proof (cases "- 1022 \<le> floor_log2 \<bar>x\<bar>")
    case True
    then have "e = floor_log2 \<bar>x\<bar>" unfolding e_def by simp
    then have "u = 2 powi (floor_log2 \<bar>x\<bar>) / 2 powi 52"
      unfolding u_def by (simp add: power_int_diff)
    also have "\<dots> \<le> \<bar>x\<bar> / 2 powi 52"
      using floor_log2_le[OF x] by (intro divide_right_mono) simp_all
    finally have "u / 2 \<le> \<bar>x\<bar> / 2 ^ 53" by simp
    moreover have "(0::rat) \<le> 2 powi (- 1075)" by simp
    ultimately show ?thesis using h by linarith
  next
    case False
    then have "e = - 1022" unfolding e_def by simp
    then have "u = 2 powi (- 1074)" unfolding u_def by simp
    then have "u / 2 = 2 powi (- 1074) / 2 powi 1" by simp
    also have "\<dots> = 2 powi (- 1074 - 1)" by (subst power_int_diff) simp_all
    finally have "u / 2 = 2 powi (- 1075)" by simp
    moreover have "0 \<le> \<bar>x\<bar> / 2 ^ 53" by simp
    ultimately show ?thesis using h by linarith
  qed
qed

lemma round_double_nonneg:
  assumes "0 \<le> x"
  shows "0 \<le> round_double x"
proof (cases "x = 0")
  case True
  then show ?thesis by (simp add: round_double_def)
next
  case False
  define u :: rat where "u = 2 powi (max (floor_log2 \<bar>x\<bar>) (- 1022) - 52)"
  have u: "0 < u" unfolding u_def by simp
  have "of_int 0 \<le> x / u" using assms u by simp
  then have "0 \<le> round_half_even (x / u)" by (rule round_half_even_ge)
  then have "0 \<le> of_int (round_half_even (x / u)) * u" using u by simp
  then show ?thesis unfolding round_double_unfold[OF False] u_def .
qed

text \<open>Rounding does not cross an integer below 2^53, which is a double.\<close>

lemma round_double_le_int:
  assumes "0 \<le> x" and "x \<le> of_int m" and "m < 2 ^ 53"
  shows "round_double x \<le> of_int m"
proof (cases "x = 0")
  case True
  then show ?thesis using assms by (simp add: round_double_def)
next
  case False
  then have x: "0 < x" "\<bar>x\<bar> = x" using assms(1) by simp_all
  define e where "e = max (floor_log2 \<bar>x\<bar>) (- 1022)"
  define u :: rat where "u = 2 powi (e - 52)"
  have u: "0 < u" unfolding u_def by simp
  have r: "round_double x = of_int (round_half_even (x / u)) * u"
    unfolding u_def e_def by (rule round_double_unfold[OF False])
  have "(of_int m :: rat) < of_int (2 ^ 53)" using assms(3) by (simp only: of_int_less_iff)
  then have "(of_int m :: rat) < 2 powi 53" by simp
  with floor_log2_le[OF x(1)] assms(2) have "(2::rat) powi (floor_log2 x) < 2 powi 53" by linarith
  then have "floor_log2 x < 53" by (rule power_int_le_imp_less_exp[rotated]) simp_all
  then have e: "0 \<le> 52 - e" unfolding e_def x(2) by simp
  have "1 / u = 2 powi (- (e - 52))" unfolding u_def by (simp only: power_int_minus_divide)
  also have "\<dots> = 2 ^ nat (52 - e)" using e by (simp add: powi_nonneg_nat)
  finally have iu: "1 / u = 2 ^ nat (52 - e)" .
  have "x / u \<le> of_int m / u" using assms(2) u by (simp add: divide_right_mono)
  also have "of_int m / u = of_int m * (1 / u)" by simp
  also have "\<dots> = of_int (m * 2 ^ nat (52 - e))" unfolding iu by simp
  finally have "round_half_even (x / u) \<le> m * 2 ^ nat (52 - e)" by (rule round_half_even_le)
  then have "(of_int (round_half_even (x / u)) :: rat) \<le> of_int (m * 2 ^ nat (52 - e))"
    by (simp only: of_int_le_iff)
  then have "of_int (round_half_even (x / u)) * u \<le> of_int (m * 2 ^ nat (52 - e)) * u"
    using u by (intro mult_right_mono) simp_all
  also have "of_int (m * 2 ^ nat (52 - e)) * u = of_int m * ((1 / u) * u)"
    unfolding iu by simp
  also have "\<dots> = of_int m" using u by simp
  finally show ?thesis unfolding r .
qed

text \<open>The result of rounding is a double: a significand of at most 53 bits, an exponent
  of at least -1074.\<close>

lemma round_double_is_double:
  "\<exists>n k. round_double x = of_int n * 2 powi k \<and> \<bar>n\<bar> \<le> 2 ^ 53 \<and> - 1074 \<le> k"
proof (cases "x = 0")
  case True
  have "round_double x = of_int 0 * 2 powi 0 \<and> \<bar>0::int\<bar> \<le> 2 ^ 53 \<and> (- 1074 :: int) \<le> 0"
    using True by (simp add: round_double_def)
  then show ?thesis by blast
next
  case False
  define e where "e = max (floor_log2 \<bar>x\<bar>) (- 1022)"
  define u :: rat where "u = 2 powi (e - 52)"
  define n where "n = round_half_even (x / u)"
  have u: "0 < u" unfolding u_def by simp
  have r: "round_double x = of_int n * 2 powi (e - 52)"
    unfolding n_def u_def e_def by (rule round_double_unfold[OF False])
  have k: "- 1074 \<le> e - 52" unfolding e_def by simp
  have ax: "0 < \<bar>x\<bar>" using False by simp
  have "\<bar>x\<bar> < 2 powi (floor_log2 \<bar>x\<bar> + 1)" by (rule floor_log2_gt[OF ax])
  also have "\<dots> \<le> 2 powi (e + 1)"
    unfolding e_def by (rule power_int_increasing) simp_all
  also have "\<dots> = 2 powi (53 + (e - 52))" by (simp add: add.commute)
  also have "\<dots> = 2 powi 53 * 2 powi (e - 52)"
    by (rule power_int_add) simp
  finally have "\<bar>x\<bar> < 2 ^ 53 * u" unfolding u_def by simp
  then have "\<bar>x\<bar> / u < 2 ^ 53" using u by (simp add: pos_divide_less_eq)
  then have "\<bar>x / u\<bar> < 2 ^ 53" using u by simp
  then have "x / u < 2 ^ 53" "- (2 ^ 53) < x / u"
    unfolding abs_less_iff by linarith+
  then have b: "x / u \<le> of_int (2 ^ 53)" "of_int (- (2 ^ 53)) \<le> x / u"
    by simp_all
  have "n \<le> 2 ^ 53" unfolding n_def using b(1) by (rule round_half_even_le)
  moreover have "- (2 ^ 53) \<le> n" unfolding n_def using b(2) by (rule round_half_even_ge)
  ultimately have "\<bar>n\<bar> \<le> 2 ^ 53" by simp
  with r k show ?thesis by blast
qed

text \<open>Multiplication of floats is commutative: \<^verbatim>\<open>x * 0.7\<close> and \<^verbatim>\<open>0.7 * x\<close> are the same float.\<close>

lemma float_mul_commute: "float_mul x y = float_mul y x"
  by (simp add: float_mul_def mult.commute)

text \<open>The quotient of a count by the total, and the percentage made of it.\<close>

lemma int_truediv_bounds:
  assumes "0 \<le> c" "c \<le> t" "0 < t"
  shows "0 \<le> int_truediv c t" and "int_truediv c t \<le> 1"
    and "\<bar>int_truediv c t - of_int c / of_int t\<bar>
           \<le> (of_int c / of_int t) / 2 ^ 53 + 2 powi (- 1075)"
proof -
  have t: "(0::rat) < of_int t" using assms(3) by simp
  have c: "(0::rat) \<le> of_int c" using assms(1) by simp
  have ct: "(of_int c :: rat) \<le> of_int t" using assms(2) by simp
  have x0: "(0::rat) \<le> of_int c / of_int t" using t c by simp
  have x1: "(of_int c :: rat) / of_int t \<le> of_int 1" using t ct by (simp add: pos_divide_le_eq)
  show "0 \<le> int_truediv c t"
    unfolding int_truediv_def using x0 by (rule round_double_nonneg)
  have "round_double (of_int c / of_int t) \<le> of_int 1"
    using x0 x1 by (rule round_double_le_int) simp
  then show "int_truediv c t \<le> 1" unfolding int_truediv_def by simp
  have "\<bar>of_int c / of_int t :: rat\<bar> = of_int c / of_int t" using x0 by (rule abs_of_nonneg)
  with round_double_err[of "of_int c / of_int t"]
  show "\<bar>int_truediv c t - of_int c / of_int t\<bar>
           \<le> (of_int c / of_int t) / 2 ^ 53 + 2 powi (- 1075)"
    unfolding int_truediv_def by simp
qed

lemma float_pct_bounds:
  assumes "0 \<le> q" "q \<le> 1"
  shows "0 \<le> float_mul q 100" and "float_mul q 100 \<le> 100"
    and "\<bar>float_mul q 100 - q * 100\<bar> \<le> 100 / 2 ^ 53 + 2 powi (- 1075)"
proof -
  have x0: "0 \<le> q * 100" using assms(1) by simp
  have x1: "q * 100 \<le> of_int 100" using assms(2) by simp
  show "0 \<le> float_mul q 100"
    unfolding float_mul_def using x0 by (rule round_double_nonneg)
  have "round_double (q * 100) \<le> of_int 100"
    using x0 x1 by (rule round_double_le_int) simp
  then show "float_mul q 100 \<le> 100" unfolding float_mul_def by simp
  have "\<bar>q * 100\<bar> / 2 ^ 53 \<le> 100 / 2 ^ 53" using x0 x1 by simp
  with round_double_err[of "q * 100"]
  show "\<bar>float_mul q 100 - q * 100\<bar> \<le> 100 / 2 ^ 53 + 2 powi (- 1075)"
    unfolding float_mul_def by linarith
qed

lemma float_add_bounds:
  assumes "0 \<le> x" "0 \<le> y" "x + y \<le> of_int m" "m < 2 ^ 53"
  shows "0 \<le> float_add x y" and "float_add x y \<le> of_int m"
    and "\<bar>float_add x y - (x + y)\<bar> \<le> of_int m / 2 ^ 53 + 2 powi (- 1075)"
proof -
  have x0: "0 \<le> x + y" using assms(1,2) by simp
  show "0 \<le> float_add x y"
    unfolding float_add_def using x0 by (rule round_double_nonneg)
  show "float_add x y \<le> of_int m"
    unfolding float_add_def using x0 assms(3,4) by (rule round_double_le_int)
  have "\<bar>x + y\<bar> / 2 ^ 53 \<le> of_int m / 2 ^ 53"
    using x0 assms(3) by (simp add: divide_right_mono)
  with round_double_err[of "x + y"]
  show "\<bar>float_add x y - (x + y)\<bar> \<le> of_int m / 2 ^ 53 + 2 powi (- 1075)"
    unfolding float_add_def by linarith
qed

lemma half_min_subnormal_le: "(2::rat) powi (- 1075) \<le> 1 / 2 ^ 53"
proof -
  have "(2::rat) powi (- 1075) \<le> 2 powi (- 53)"
    by (rule power_int_increasing) simp_all
  also have "\<dots> = 1 / 2 ^ 53" by (simp add: power_int_minus_divide)
  finally show ?thesis .
qed

lemma pct_sum:
  fixes a b c :: int
  assumes "a + b + c \<noteq> 0"
  shows "(of_int a / of_int (a + b + c)) * 100 + (of_int b / of_int (a + b + c)) * 100
           + (of_int c / of_int (a + b + c)) * (100::rat) = 100"
proof -
  have t: "(of_int (a + b + c) :: rat) \<noteq> 0"
    using assms by (simp only: of_int_eq_0_iff) simp
  have "(of_int a / of_int (a + b + c)) * 100 + (of_int b / of_int (a + b + c)) * 100
           + (of_int c / of_int (a + b + c)) * (100::rat)
       = ((of_int a + of_int b + of_int c) / of_int (a + b + c)) * 100"
    by (simp only: add_divide_distrib distrib_right)
  also have "\<dots> = (of_int (a + b + c) / of_int (a + b + c)) * (100::rat)" by simp
  also have "\<dots> = 100" using t by simp
  finally show ?thesis .
qed

subsection \<open>Shared facts about the builder\<close>

text \<open>
  With a nonzero total and at least three colours in use, the builder returns the figure
  written out here.
\<close>

lemma grafico_ok:
  assumes "positivos + negativos + neutros \<noteq> 0"
    and "3 \<le> length (colores_en_uso colores_gauge)"
  shows "grafico_kpi_sentimiento positivos negativos neutros objetivo_positivo titulo
           mostrar_desglose colores_gauge =
    (let colores = colores_en_uso colores_gauge;
         tot = positivos + negativos + neutros;
         pct = float_mul (int_truediv positivos tot) 100;
         m = \<lparr>total = tot, pct_positivo = pct,
              pct_negativo = float_mul (int_truediv negativos tot) 100,
              pct_neutro = float_mul (int_truediv neutros tot) 100\<rparr>;
         barra = (if pct \<ge> objetivo_positivo then colores ! 2
                  else if pct \<ge> float_mul objetivo_positivo float_0_7 then colores ! 1
                  else colores ! 0);
         fig = Figure (crear_gauge pct objetivo_positivo titulo barra
                         (colores ! 2) (colores ! 0))
     in Inr (layout_final
               (if mostrar_desglose
                then add_annotation fig
                       (anotacion_desglose
                          (desglose_texto positivos negativos neutros m objetivo_positivo))
                else fig)))"
  using assms
  by (auto simp add: grafico_kpi_sentimiento_def bind_result_def calculo_metricas_def
      color_barra_def py_index_def Let_def)

lemma fig_data_Figure: "fig_data (Figure tr) = [tr]"
  by (simp add: Figure_def)

lemma fig_data_add_annotation: "fig_data (add_annotation fig a) = fig_data fig"
  by (simp add: add_annotation_def)

lemma fig_data_layout_final: "fig_data (layout_final fig) = fig_data fig"
  by (simp add: layout_final_def update_layout_def)

lemmas fig_data_simps = fig_data_Figure fig_data_add_annotation fig_data_layout_final

lemma crear_gauge_sel:
  "ind_value (crear_gauge pct obj tit barra cre dec) = pct"
  "bar_color (gauge_bar (ind_gauge (crear_gauge pct obj tit barra cre dec))) = barra"
  "font_color (number_font (ind_number (crear_gauge pct obj tit barra cre dec))) = Some barra"
  "delta_reference (ind_delta (crear_gauge pct obj tit barra cre dec)) = obj"
  "delta_increasing_color (ind_delta (crear_gauge pct obj tit barra cre dec)) = cre"
  "delta_decreasing_color (ind_delta (crear_gauge pct obj tit barra cre dec)) = dec"
  "gauge_steps (ind_gauge (crear_gauge pct obj tit barra cre dec)) = zonas_fondo"
  "axis_range (gauge_axis (ind_gauge (crear_gauge pct obj tit barra cre dec))) = [0, 100]"
  "axis_tick0 (gauge_axis (ind_gauge (crear_gauge pct obj tit barra cre dec))) = 0"
  "axis_dtick (gauge_axis (ind_gauge (crear_gauge pct obj tit barra cre dec))) = 20"
  "threshold_value (gauge_threshold (ind_gauge (crear_gauge pct obj tit barra cre dec))) = obj"
  "title_text (ind_title (crear_gauge pct obj tit barra cre dec)) = tit"
  by (simp_all add: crear_gauge_def)

lemma grafico_total_zero:
  assumes "positivos + negativos + neutros = 0"
  shows "grafico_kpi_sentimiento positivos negativos neutros objetivo_positivo titulo
           mostrar_desglose colores_gauge
         = Inl (ValueError ''El total de sentimientos no puede ser 0'')"
  using assms
  by (simp add: grafico_kpi_sentimiento_def bind_result_def calculo_metricas_def Let_def)

lemma grafico_short_colores:
  assumes "positivos + negativos + neutros \<noteq> 0"
    and "length (colores_en_uso colores_gauge) < 3"
  shows "grafico_kpi_sentimiento positivos negativos neutros objetivo_positivo titulo
           mostrar_desglose colores_gauge = Inl IndexError"
  using assms
  by (simp add: grafico_kpi_sentimiento_def bind_result_def calculo_metricas_def
      color_barra_def py_index_def Let_def)

lemma grafico_Inr_D:
  assumes "grafico_kpi_sentimiento positivos negativos neutros objetivo_positivo titulo
             mostrar_desglose colores_gauge = Inr fig"
  shows "positivos + negativos + neutros \<noteq> 0" and "3 \<le> length (colores_en_uso colores_gauge)"
proof -
  show nz: "positivos + negativos + neutros \<noteq> 0"
    using assms grafico_total_zero by fastforce
  show "3 \<le> length (colores_en_uso colores_gauge)"
  proof (rule ccontr)
    assume "\<not> 3 \<le> length (colores_en_uso colores_gauge)"
    then have "length (colores_en_uso colores_gauge) < 3" by simp
    from grafico_short_colores[OF nz this] assms show False by simp
  qed
qed

lemma layout_final_Figure_annotations:
  "lay_annotations (fig_layout (layout_final (Figure tr))) = []"
  by (simp add: layout_final_def update_layout_def Figure_def)

text \<open>The shape of every figure the builder returns.\<close>

lemma grafico_Inr_shape:
  assumes "grafico_kpi_sentimiento positivos negativos neutros objetivo_positivo titulo
             mostrar_desglose colores_gauge = Inr fig"
  shows "\<exists>m barra.
           calculo_metricas positivos negativos neutros = Inr m \<and>
           total m = positivos + negativos + neutros \<and>
           barra = (if pct_positivo m \<ge> objetivo_positivo
                      then colores_en_uso colores_gauge ! 2
                    else if pct_positivo m \<ge> float_mul objetivo_positivo float_0_7
                      then colores_en_uso colores_gauge ! 1
                    else colores_en_uso colores_gauge ! 0) \<and>
           fig = layout_final
                   (if mostrar_desglose
                    then add_annotation
                           (Figure (crear_gauge (pct_positivo m) objetivo_positivo titulo barra
                              (colores_en_uso colores_gauge ! 2) (colores_en_uso colores_gauge ! 0)))
                           (anotacion_desglose
                              (desglose_texto positivos negativos neutros m objetivo_positivo))
                    else Figure (crear_gauge (pct_positivo m) objetivo_positivo titulo barra
                              (colores_en_uso colores_gauge ! 2) (colores_en_uso colores_gauge ! 0)))"
proof -
  note nz = grafico_Inr_D(1)[OF assms] and len = grafico_Inr_D(2)[OF assms]
  define t where "t = positivos + negativos + neutros"
  define m where "m = \<lparr>total = t, pct_positivo = float_mul (int_truediv positivos t) 100,
             pct_negativo = float_mul (int_truediv negativos t) 100,
             pct_neutro = float_mul (int_truediv neutros t) 100\<rparr>"
  have m: "calculo_metricas positivos negativos neutros = Inr m"
    unfolding calculo_metricas_def Let_def m_def t_def using nz by (simp only: if_False)
  have tm: "total m = positivos + negativos + neutros"
    unfolding m_def t_def by simp
  have pm: "pct_positivo m = float_mul (int_truediv positivos t) 100"
    unfolding m_def by simp
  have "Inr fig = grafico_kpi_sentimiento positivos negativos neutros objetivo_positivo titulo
             mostrar_desglose colores_gauge"
    using assms by simp
  also have "\<dots> = Inr (layout_final
                   (if mostrar_desglose
                    then add_annotation
                           (Figure (crear_gauge (pct_positivo m) objetivo_positivo titulo
                              (if pct_positivo m \<ge> objetivo_positivo
                                 then colores_en_uso colores_gauge ! 2
                               else if pct_positivo m \<ge> float_mul objetivo_positivo float_0_7
                                 then colores_en_uso colores_gauge ! 1
                               else colores_en_uso colores_gauge ! 0)
                              (colores_en_uso colores_gauge ! 2) (colores_en_uso colores_gauge ! 0)))
                           (anotacion_desglose
                              (desglose_texto positivos negativos neutros m objetivo_positivo))
                    else Figure (crear_gauge (pct_positivo m) objetivo_positivo titulo
                              (if pct_positivo m \<ge> objetivo_positivo
                                 then colores_en_uso colores_gauge ! 2
                               else if pct_positivo m \<ge> float_mul objetivo_positivo float_0_7
                                 then colores_en_uso colores_gauge ! 1
                               else colores_en_uso colores_gauge ! 0)
                              (colores_en_uso colores_gauge ! 2) (colores_en_uso colores_gauge ! 0))))"
    unfolding grafico_ok[OF nz len] Let_def pm unfolding m_def t_def ..
  finally show ?thesis using m tm by blast
qed

lemma grafico_returns:
  assumes "positivos + negativos + neutros \<noteq> 0"
    and "3 \<le> length (colores_en_uso colores_gauge)"
  shows "\<exists>fig. grafico_kpi_sentimiento positivos negativos neutros objetivo_positivo titulo
           mostrar_desglose colores_gauge = Inr fig"
  unfolding grafico_ok[OF assms] by (simp add: Let_def)

text \<open>The indicator of every figure the builder returns.\<close>

lemma grafico_Inr_indicator:
  assumes "grafico_kpi_sentimiento positivos negativos neutros objetivo_positivo titulo
             mostrar_desglose colores_gauge = Inr fig"
  shows "\<exists>m ind.
           calculo_metricas positivos negativos neutros = Inr m \<and>
           fig_data fig = [ind] \<and>
           ind_value ind = pct_positivo m \<and>
           delta_reference (ind_delta ind) = objetivo_positivo \<and>
           bar_color (gauge_bar (ind_gauge ind)) =
             (if pct_positivo m \<ge> objetivo_positivo
                then colores_en_uso colores_gauge ! 2
              else if pct_positivo m \<ge> float_mul objetivo_positivo float_0_7
                then colores_en_uso colores_gauge ! 1
              else colores_en_uso colores_gauge ! 0)"
proof -
  from grafico_Inr_shape[OF assms] obtain m barra where
    m: "calculo_metricas positivos negativos neutros = Inr m" and
    b: "barra = (if pct_positivo m \<ge> objetivo_positivo
                      then colores_en_uso colores_gauge ! 2
                    else if pct_positivo m \<ge> float_mul objetivo_positivo float_0_7
                      then colores_en_uso colores_gauge ! 1
                    else colores_en_uso colores_gauge ! 0)" and
    f: "fig = layout_final
                   (if mostrar_desglose
                    then add_annotation
                           (Figure (crear_gauge (pct_positivo m) objetivo_positivo titulo barra
                              (colores_en_uso colores_gauge ! 2) (colores_en_uso colores_gauge ! 0)))
                           (anotacion_desglose
                              (desglose_texto positivos negativos neutros m objetivo_positivo))
                    else Figure (crear_gauge (pct_positivo m) objetivo_positivo titulo barra
                              (colores_en_uso colores_gauge ! 2) (colores_en_uso colores_gauge ! 0)))"
    by auto
  define ind where "ind = crear_gauge (pct_positivo m) objetivo_positivo titulo barra
                              (colores_en_uso colores_gauge ! 2) (colores_en_uso colores_gauge ! 0)"
  have fd: "fig_data fig = [ind]"
    unfolding f ind_def by (simp add: fig_data_simps)
  have s: "ind_value ind = pct_positivo m" "delta_reference (ind_delta ind) = objetivo_positivo"
    "bar_color (gauge_bar (ind_gauge ind)) = barra"
    unfolding ind_def by (simp_all only: crear_gauge_sel)
  show ?thesis
    by (rule exI[of _ m], rule exI[of _ ind]) (simp only: m fd s b simp_thms)
qed

text \<open>The metrics of the inputs used as examples, as the doubles the source computes.\<close>

lemma metricas_120_30_50:
  "calculo_metricas 120 30 50 =
     Inr \<lparr>total = 200, pct_positivo = 60, pct_negativo = 15, pct_neutro = 25\<rparr>"
  by code_simp

lemma umbral_70: "float_mul 70 float_0_7 = 49"
  by code_simp

lemma colores_default_len: "3 \<le> length (colores_en_uso None)"
  by (simp add: colores_en_uso_def colores_default_def)

lemma ejemplo_returns:
  "\<exists>fig. grafico_kpi_sentimiento 120 30 50 70 titulo mostrar None = Inr fig"
  by (rule grafico_returns[OF _ colores_default_len]) simp

subsection \<open>The percentages\<close>

text \<open>
  C3. For non-negative counts with a positive total, each of the three percentages, the
  double the source computes as count / total * 100, lies between 0 and 100. Over exact
  rational arithmetic the three values count / total * 100 add up to exactly 100. In
  floating point, the three doubles add up to 100 within the relative tolerance 1e-9,
  whether they are added exactly or as Python adds them, left to right.
\<close>

theorem C3_percentages_in_range_sum_100:
  assumes "0 \<le> positivos" "0 \<le> negativos" "0 \<le> neutros"
    and "0 < positivos + negativos + neutros"
  shows "\<exists>m. calculo_metricas positivos negativos neutros = Inr m \<and>
     pct_positivo m = float_mul (int_truediv positivos (positivos + negativos + neutros)) 100 \<and>
     pct_negativo m = float_mul (int_truediv negativos (positivos + negativos + neutros)) 100 \<and>
     pct_neutro m = float_mul (int_truediv neutros (positivos + negativos + neutros)) 100 \<and>
     0 \<le> pct_positivo m \<and> pct_positivo m \<le> 100 \<and>
     0 \<le> pct_negativo m \<and> pct_negativo m \<le> 100 \<and>
     0 \<le> pct_neutro m \<and> pct_neutro m \<le> 100 \<and>
     (of_int positivos / of_int (positivos + negativos + neutros)) * 100
       + (of_int negativos / of_int (positivos + negativos + neutros)) * 100
       + (of_int neutros / of_int (positivos + negativos + neutros)) * 100 = (100::rat) \<and>
     \<bar>pct_positivo m + pct_negativo m + pct_neutro m - 100\<bar> \<le> 100 * (1 / 10 ^ 9) \<and>
     \<bar>float_add (float_add (pct_positivo m) (pct_negativo m)) (pct_neutro m) - 100\<bar>
       \<le> 100 * (1 / 10 ^ 9)"
proof -
  define t where "t = positivos + negativos + neutros"
  define qa where "qa = int_truediv positivos t"
  define qb where "qb = int_truediv negativos t"
  define qc where "qc = int_truediv neutros t"
  define a where "a = float_mul qa 100"
  define b where "b = float_mul qb 100"
  define c where "c = float_mul qc 100"
  define xa :: rat where "xa = of_int positivos / of_int t"
  define xb :: rat where "xb = of_int negativos / of_int t"
  define xc :: rat where "xc = of_int neutros / of_int t"
  define h :: rat where "h = 2 powi (- 1075)"
  define m where "m = \<lparr>total = t, pct_positivo = a, pct_negativo = b, pct_neutro = c\<rparr>"
  have t: "0 < t" "t \<noteq> 0" using assms(4) unfolding t_def by simp_all
  have le: "positivos \<le> t" "negativos \<le> t" "neutros \<le> t"
    using assms unfolding t_def by simp_all
  have cm: "calculo_metricas positivos negativos neutros = Inr m"
    unfolding calculo_metricas_def Let_def m_def a_def b_def c_def qa_def qb_def qc_def
    using t(2) unfolding t_def by (simp only: if_False)
  have sel: "pct_positivo m = a" "pct_negativo m = b" "pct_neutro m = c"
    unfolding m_def by simp_all
  note qA = int_truediv_bounds[OF assms(1) le(1) t(1), folded qa_def xa_def h_def]
  note qB = int_truediv_bounds[OF assms(2) le(2) t(1), folded qb_def xb_def h_def]
  note qC = int_truediv_bounds[OF assms(3) le(3) t(1), folded qc_def xc_def h_def]
  note pA = float_pct_bounds[OF qA(1) qA(2), folded a_def h_def]
  note pB = float_pct_bounds[OF qB(1) qB(2), folded b_def h_def]
  note pC = float_pct_bounds[OF qC(1) qC(2), folded c_def h_def]
  have ex: "xa * 100 + xb * 100 + xc * 100 = 100"
    unfolding xa_def xb_def xc_def t_def
    by (rule pct_sum) (use assms(4) in simp)
  have h: "0 \<le> h" "h \<le> 1 / 2 ^ 53"
    unfolding h_def by (simp, rule half_min_subnormal_le)
  have x0: "0 \<le> xa" "0 \<le> xb" "0 \<le> xc"
    unfolding xa_def xb_def xc_def using assms(1-3) t(1) by simp_all
  have dA: "\<bar>a - xa * 100\<bar> \<le> xa * (100 / 2 ^ 53) + 100 * h + (100 / 2 ^ 53 + h)"
    using qA(3) pA(3) by (simp add: abs_le_iff; linarith?)
  have dB: "\<bar>b - xb * 100\<bar> \<le> xb * (100 / 2 ^ 53) + 100 * h + (100 / 2 ^ 53 + h)"
    using qB(3) pB(3) by (simp add: abs_le_iff; linarith?)
  have dC: "\<bar>c - xc * 100\<bar> \<le> xc * (100 / 2 ^ 53) + 100 * h + (100 / 2 ^ 53 + h)"
    using qC(3) pC(3) by (simp add: abs_le_iff; linarith?)
  have s1: "\<bar>a + b + c - 100\<bar> \<le> 400 / 2 ^ 53 + 303 * h"
    using dA dB dC ex by (simp add: abs_le_iff; linarith?)
  have ab: "a + b \<le> of_int 200" using pA(2) pB(2) by simp
  note fAB = float_add_bounds[OF pA(1) pB(1) ab, folded h_def]
  have abc: "float_add a b + c \<le> of_int 300" using fAB(2) pC(2) by simp
  note fABC = float_add_bounds[OF fAB(1) pC(1) abc, folded h_def]
  have s2: "\<bar>float_add (float_add a b) c - 100\<bar> \<le> 900 / 2 ^ 53 + 305 * h"
    using s1 fAB(3) fABC(3) by (simp add: abs_le_iff; linarith?)
  have hb: "h \<le> 1 / 9007199254740992" using h(2) by simp
  have "400 / 2 ^ 53 + 303 * h \<le> 100 * (1 / 10 ^ 9)"
    using hb by simp
  with s1 have tol1: "\<bar>a + b + c - 100\<bar> \<le> 100 * (1 / 10 ^ 9)"
    by (rule order_trans)
  have "900 / 2 ^ 53 + 305 * h \<le> 100 * (1 / 10 ^ 9)"
    using hb by simp
  with s2 have tol2: "\<bar>float_add (float_add a b) c - 100\<bar> \<le> 100 * (1 / 10 ^ 9)"
    by (rule order_trans)
  have "calculo_metricas positivos negativos neutros = Inr m \<and>
     pct_positivo m = float_mul (int_truediv positivos t) 100 \<and>
     pct_negativo m = float_mul (int_truediv negativos t) 100 \<and>
     pct_neutro m = float_mul (int_truediv neutros t) 100 \<and>
     0 \<le> pct_positivo m \<and> pct_positivo m \<le> 100 \<and>
     0 \<le> pct_negativo m \<and> pct_negativo m \<le> 100 \<and>
     0 \<le> pct_neutro m \<and> pct_neutro m \<le> 100 \<and>
     (of_int positivos / of_int t) * 100 + (of_int negativos / of_int t) * 100
       + (of_int neutros / of_int t) * 100 = (100::rat) \<and>
     \<bar>pct_positivo m + pct_negativo m + pct_neutro m - 100\<bar> \<le> 100 * (1 / 10 ^ 9) \<and>
     \<bar>float_add (float_add (pct_positivo m) (pct_negativo m)) (pct_neutro m) - 100\<bar>
       \<le> 100 * (1 / 10 ^ 9)"
    unfolding sel
    using cm pA(1,2) pB(1,2) pC(1,2) ex tol1 tol2
    unfolding a_def b_def c_def qa_def qb_def qc_def xa_def xb_def xc_def
    by - (intro conjI; (assumption | rule refl))
  then show ?thesis unfolding t_def by (rule exI[of _ m])
qed

text \<open>
  At counts (1, 1, 1) each percentage is the double 33.33333333333333, and the three add
  up, exactly and as floats, to the double 99.99999999999999.
\<close>

theorem C3_witness:
  "calculo_metricas 1 1 1 =
      Inr \<lparr>total = 3, pct_positivo = 2345624805922133 / 70368744177664,
            pct_negativo = 2345624805922133 / 70368744177664,
            pct_neutro = 2345624805922133 / 70368744177664\<rparr> \<and>
   float_add (float_add (2345624805922133 / 70368744177664) (2345624805922133 / 70368744177664))
       (2345624805922133 / 70368744177664) = 7036874417766399 / 70368744177664 \<and>
   (\<exists>m. calculo_metricas 1 1 1 = Inr m \<and>
      0 \<le> pct_positivo m \<and> pct_positivo m \<le> 100 \<and>
      0 \<le> pct_negativo m \<and> pct_negativo m \<le> 100 \<and>
      0 \<le> pct_neutro m \<and> pct_neutro m \<le> 100 \<and>
      \<bar>pct_positivo m + pct_negativo m + pct_neutro m - 100\<bar> \<le> 100 * (1 / 10 ^ 9) \<and>
      \<bar>float_add (float_add (pct_positivo m) (pct_negativo m)) (pct_neutro m) - 100\<bar>
        \<le> 100 * (1 / 10 ^ 9))"
proof (intro conjI)
  show "calculo_metricas 1 1 1 =
      Inr \<lparr>total = 3, pct_positivo = 2345624805922133 / 70368744177664,
            pct_negativo = 2345624805922133 / 70368744177664,
            pct_neutro = 2345624805922133 / 70368744177664\<rparr>"
    by code_simp
  show "float_add (float_add (2345624805922133 / 70368744177664) (2345624805922133 / 70368744177664))
       (2345624805922133 / 70368744177664) = 7036874417766399 / 70368744177664"
    by code_simp
  have "(0::int) \<le> 1" "(0::int) < 1 + 1 + 1" by simp_all
  from C3_percentages_in_range_sum_100 [OF this(1) this(1) this(1) this(2)]
  obtain m where "calculo_metricas 1 1 1 = Inr m \<and>
      0 \<le> pct_positivo m \<and> pct_positivo m \<le> 100 \<and>
      0 \<le> pct_negativo m \<and> pct_negativo m \<le> 100 \<and>
      0 \<le> pct_neutro m \<and> pct_neutro m \<le> 100 \<and>
      \<bar>pct_positivo m + pct_negativo m + pct_neutro m - 100\<bar> \<le> 100 * (1 / 10 ^ 9) \<and>
      \<bar>float_add (float_add (pct_positivo m) (pct_negativo m)) (pct_neutro m) - 100\<bar>
        \<le> 100 * (1 / 10 ^ 9)"
    by auto
  then show "\<exists>m. calculo_metricas 1 1 1 = Inr m \<and>
      0 \<le> pct_positivo m \<and> pct_positivo m \<le> 100 \<and>
      0 \<le> pct_negativo m \<and> pct_negativo m \<le> 100 \<and>
      0 \<le> pct_neutro m \<and> pct_neutro m \<le> 100 \<and>
      \<bar>pct_positivo m + pct_negativo m + pct_neutro m - 100\<bar> \<le> 100 * (1 / 10 ^ 9) \<and>
      \<bar>float_add (float_add (pct_positivo m) (pct_negativo m)) (pct_neutro m) - 100\<bar>
        \<le> 100 * (1 / 10 ^ 9)"
    by (rule exI)
qed

subsection \<open>The empty-input error\<close>

text \<open>
  C1. The builder raises its ValueError (the one with the message of line 42) exactly
  when positivos + negativos + neutros = 0. Then the error is the result of the call:
  nothing is substituted for it. With a nonzero total the result is never a ValueError,
  whatever the other arguments are.
\<close>

theorem C1_value_error_iff_total_zero:
  "(positivos + negativos + neutros = 0 \<longrightarrow>
      grafico_kpi_sentimiento positivos negativos neutros objetivo_positivo titulo
          mostrar_desglose colores_gauge
        = Inl (ValueError ''El total de sentimientos no puede ser 0'')) \<and>
   (positivos + negativos + neutros \<noteq> 0 \<longrightarrow>
      (\<forall>msg. grafico_kpi_sentimiento positivos negativos neutros objetivo_positivo titulo
          mostrar_desglose colores_gauge
        \<noteq> Inl (ValueError msg)))"
  by (simp add: grafico_kpi_sentimiento_def bind_result_def calculo_metricas_def
      color_barra_def py_index_def Let_def)

theorem C1_witness:
  "grafico_kpi_sentimiento 0 0 0 70 titulo_por_defecto True None
     = Inl (ValueError ''El total de sentimientos no puede ser 0'') \<and>
   grafico_kpi_sentimiento 120 30 50 70 titulo_por_defecto True None
     \<noteq> Inl (ValueError ''El total de sentimientos no puede ser 0'')"
  using C1_value_error_iff_total_zero [of 0 0 0 70 titulo_por_defecto True None]
    C1_value_error_iff_total_zero [of 120 30 50 70 titulo_por_defecto True None]
  by simp

subsection \<open>The colour of the bar\<close>

text \<open>
  C2 (as amended). Whenever the builder returns a figure, the colour of the bar follows
  the ordered ladder on pct_positivo, the value of the gauge: the colour at index 2 if
  pct_positivo \<ge> objetivo_positivo, else the colour at index 1 if pct_positivo \<ge>
  0.7 * objetivo_positivo (the product as a float), else the colour at index 0. A
  percentage equal to the target takes the colour at index 2. A percentage equal to
  0.7 * target takes the colour at index 1 provided it is below the target.
\<close>

theorem C2_tier_ladder:
  assumes "grafico_kpi_sentimiento positivos negativos neutros objetivo_positivo titulo
             mostrar_desglose colores_gauge = Inr fig"
  shows "\<exists>m ind. calculo_metricas positivos negativos neutros = Inr m \<and>
           fig_data fig = [ind] \<and>
           ind_value ind = pct_positivo m \<and>
           bar_color (gauge_bar (ind_gauge ind)) =
             (if pct_positivo m \<ge> objetivo_positivo then colores_en_uso colores_gauge ! 2
              else if pct_positivo m \<ge> float_mul float_0_7 objetivo_positivo
                   then colores_en_uso colores_gauge ! 1
              else colores_en_uso colores_gauge ! 0) \<and>
           (pct_positivo m = objetivo_positivo \<longrightarrow>
              bar_color (gauge_bar (ind_gauge ind)) = colores_en_uso colores_gauge ! 2) \<and>
           (pct_positivo m = float_mul float_0_7 objetivo_positivo \<and>
            pct_positivo m < objetivo_positivo \<longrightarrow>
              bar_color (gauge_bar (ind_gauge ind)) = colores_en_uso colores_gauge ! 1)"
proof -
  from grafico_Inr_indicator[OF assms] obtain m ind where
    m: "calculo_metricas positivos negativos neutros = Inr m" and
    fd: "fig_data fig = [ind]" and
    v: "ind_value ind = pct_positivo m" and
    bc: "bar_color (gauge_bar (ind_gauge ind)) =
             (if pct_positivo m \<ge> objetivo_positivo
                then colores_en_uso colores_gauge ! 2
              else if pct_positivo m \<ge> float_mul objetivo_positivo float_0_7
                then colores_en_uso colores_gauge ! 1
              else colores_en_uso colores_gauge ! 0)"
    by auto
  have "bar_color (gauge_bar (ind_gauge ind)) =
             (if pct_positivo m \<ge> objetivo_positivo then colores_en_uso colores_gauge ! 2
              else if pct_positivo m \<ge> float_mul float_0_7 objetivo_positivo
                   then colores_en_uso colores_gauge ! 1
              else colores_en_uso colores_gauge ! 0) \<and>
           (pct_positivo m = objetivo_positivo \<longrightarrow>
              bar_color (gauge_bar (ind_gauge ind)) = colores_en_uso colores_gauge ! 2) \<and>
           (pct_positivo m = float_mul float_0_7 objetivo_positivo \<and>
            pct_positivo m < objetivo_positivo \<longrightarrow>
              bar_color (gauge_bar (ind_gauge ind)) = colores_en_uso colores_gauge ! 1)"
    unfolding bc float_mul_commute[of float_0_7 objetivo_positivo] by simp
  with m fd v show ?thesis by auto
qed

text \<open>
  Counts (57, 43, 0) against the target 57.0: the source computes (57 / 100) * 100 as the
  double 56.99999999999999, which is below the target and not below 0.7 * 57.0, so the bar
  has the colour at index 1.
\<close>

theorem C2_witness:
  "\<exists>fig ind. grafico_kpi_sentimiento 57 43 0 57 titulo_por_defecto True None = Inr fig \<and>
      fig_data fig = [ind] \<and>
      ind_value ind = 8022036836253695 / 140737488355328 \<and>
      bar_color (gauge_bar (ind_gauge ind)) = ''#f39c12''"
proof -
  obtain fig where h: "grafico_kpi_sentimiento 57 43 0 57 titulo_por_defecto True None = Inr fig"
    using grafico_returns[OF _ colores_default_len, of 57 43 0 57 titulo_por_defecto True]
    by auto
  from C2_tier_ladder [OF h] obtain m ind where
    m: "calculo_metricas 57 43 0 = Inr m" and fd: "fig_data fig = [ind]" and
    v: "ind_value ind = pct_positivo m" and
    bc: "bar_color (gauge_bar (ind_gauge ind)) =
             (if pct_positivo m \<ge> 57 then colores_en_uso None ! 2
              else if pct_positivo m \<ge> float_mul float_0_7 57 then colores_en_uso None ! 1
              else colores_en_uso None ! 0)"
    by auto
  have "calculo_metricas 57 43 0 =
          Inr \<lparr>total = 100, pct_positivo = 8022036836253695 / 140737488355328,
                pct_negativo = 43, pct_neutro = 0\<rparr>"
    by code_simp
  with m have p: "pct_positivo m = 8022036836253695 / 140737488355328" by auto
  have u: "float_mul float_0_7 57 = 5615425785377587 / 140737488355328" by code_simp
  have "bar_color (gauge_bar (ind_gauge ind)) = ''#f39c12''"
    unfolding bc p u by (simp add: colores_en_uso_def colores_default_def)
  with h fd v p show ?thesis by auto
qed

text \<open>
  The claim as first stated fails when the target is 0: with counts (0, 1, 0) the
  percentage is 0, which equals 0.7 * 0, and the first rung of the ladder is taken, so the
  bar has the colour at index 2, which differs from the one at index 1.
\<close>

theorem C2_counterexample:
  "map ind_value (indicador_de (grafico_kpi_sentimiento 0 1 0 0 titulo_por_defecto True None))
      = [float_mul float_0_7 0] \<and>
   map bar_color (map gauge_bar (map ind_gauge
      (indicador_de (grafico_kpi_sentimiento 0 1 0 0 titulo_por_defecto True None))))
      = [colores_default ! 2] \<and>
   colores_default ! 2 \<noteq> colores_default ! 1"
  by code_simp

subsection \<open>The worked example\<close>

text \<open>
  C4. For positivos = 120, negativos = 30, neutros = 50 and objetivo_positivo = 70 the
  builder computes total = 200 and pct_positivo = 60; since 60 \<ge> 49 = 0.7 * 70 and
  60 < 70 the bar takes the colour at index 1; the delta of the gauge against its
  reference, the target, is -10.
\<close>

theorem C4_example_120_30_50:
  assumes "3 \<le> length (colores_en_uso colores_gauge)"
  shows "\<exists>fig ind m.
     grafico_kpi_sentimiento 120 30 50 70 titulo mostrar_desglose colores_gauge = Inr fig \<and>
     fig_data fig = [ind] \<and>
     calculo_metricas 120 30 50 = Inr m \<and>
     total m = 200 \<and> pct_positivo m = 60 \<and> ind_value ind = 60 \<and>
     (7 / 10) * (70::rat) = 49 \<and> float_mul 70 float_0_7 = 49 \<and>
     (60::rat) \<ge> 49 \<and> (60::rat) < 70 \<and>
     bar_color (gauge_bar (ind_gauge ind)) = colores_en_uso colores_gauge ! 1 \<and>
     delta_reference (ind_delta ind) = 70 \<and>
     diferencia ind = - 10"
proof -
  obtain fig where
    g: "grafico_kpi_sentimiento 120 30 50 70 titulo mostrar_desglose colores_gauge = Inr fig"
    using grafico_returns[OF _ assms, of 120 30 50 70 titulo mostrar_desglose] by auto
  from grafico_Inr_indicator[OF g] obtain m ind where
    m: "calculo_metricas 120 30 50 = Inr m" and fd: "fig_data fig = [ind]" and
    v: "ind_value ind = pct_positivo m" and
    r: "delta_reference (ind_delta ind) = 70" and
    bc: "bar_color (gauge_bar (ind_gauge ind)) =
             (if pct_positivo m \<ge> 70 then colores_en_uso colores_gauge ! 2
              else if pct_positivo m \<ge> float_mul 70 float_0_7
                then colores_en_uso colores_gauge ! 1
              else colores_en_uso colores_gauge ! 0)"
    by auto
  from m have me: "m = \<lparr>total = 200, pct_positivo = 60, pct_negativo = 15, pct_neutro = 25\<rparr>"
    unfolding metricas_120_30_50 by simp
  have p: "pct_positivo m = 60" "total m = 200" unfolding me by simp_all
  have b: "bar_color (gauge_bar (ind_gauge ind)) = colores_en_uso colores_gauge ! 1"
    unfolding bc p umbral_70 by simp
  have d: "diferencia ind = - 10" unfolding diferencia_def v r p by simp
  show ?thesis
    apply (rule exI[of _ fig], rule exI[of _ ind], rule exI[of _ m])
    using g fd m p v r b d umbral_70 by simp
qed

theorem C4_witness:
  "\<exists>fig ind. grafico_kpi_sentimiento 120 30 50 70 titulo_por_defecto True None = Inr fig \<and>
     fig_data fig = [ind] \<and> ind_value ind = 60 \<and>
     bar_color (gauge_bar (ind_gauge ind)) = ''#f39c12'' \<and> diferencia ind = - 10"
proof -
  have c: "colores_en_uso None ! 1 = ''#f39c12''"
    by (simp add: colores_en_uso_def colores_default_def)
  from C4_example_120_30_50 [OF colores_default_len, of titulo_por_defecto True]
  show ?thesis unfolding c by auto
qed

subsection \<open>The background zones\<close>

text \<open>
  C5. The claim asks that the three zones be tinted with the colours of the scheme in
  effect. The source writes the three tints as literals: they are the tints of the
  default colours, and they stay so when \<^verbatim>\<open>colores_gauge\<close> is given. Evaluated at
  counts (120, 30, 50), target 70 and the colours of \<^verbatim>\<open>MIS_COLORES\<close>: the zones of the
  figure are the literal ones, which are the tints of the default scheme and not the
  tints of the scheme given.
\<close>

theorem C5_zones_ignore_colores_gauge:
  "map gauge_steps (map ind_gauge (indicador_de
      (grafico_kpi_sentimiento 120 30 50 70 titulo_por_defecto True (Some MIS_COLORES))))
     = [zonas_fondo] \<and>
   map Some (map step_color zonas_fondo) = map spec_tinte colores_default \<and>
   map Some (map step_color zonas_fondo) \<noteq> map spec_tinte MIS_COLORES"
  by code_simp

text \<open>
  C6. A figure is returned for every nonzero total (so for every positive one) and every
  target, when at least three colours are in use; and in every figure returned the zone
  boundaries are 0, 40, 70, 100, the axis range is [0, 100] with ticks from 0 every 20,
  and the threshold line is at objetivo_positivo. The boundaries are constants: the target
  does not occur in them.
\<close>

theorem C6_fixed_zones_axis_threshold:
  "(positivos + negativos + neutros \<noteq> 0 \<and> 3 \<le> length (colores_en_uso colores_gauge) \<longrightarrow>
      (\<exists>fig. grafico_kpi_sentimiento positivos negativos neutros objetivo_positivo titulo
                mostrar_desglose colores_gauge = Inr fig)) \<and>
   (\<forall>fig. grafico_kpi_sentimiento positivos negativos neutros objetivo_positivo titulo
                mostrar_desglose colores_gauge = Inr fig \<longrightarrow>
      (\<exists>ind. fig_data fig = [ind] \<and>
         map step_range (gauge_steps (ind_gauge ind)) = [[0, 40], [40, 70], [70, 100]] \<and>
         axis_range (gauge_axis (ind_gauge ind)) = [0, 100] \<and>
         axis_tick0 (gauge_axis (ind_gauge ind)) = 0 \<and>
         axis_dtick (gauge_axis (ind_gauge ind)) = 20 \<and>
         threshold_value (gauge_threshold (ind_gauge ind)) = objetivo_positivo))"
proof (intro conjI impI allI)
  assume "positivos + negativos + neutros \<noteq> 0 \<and> 3 \<le> length (colores_en_uso colores_gauge)"
  then show "\<exists>fig. grafico_kpi_sentimiento positivos negativos neutros objetivo_positivo titulo
                mostrar_desglose colores_gauge = Inr fig"
    using grafico_ok[of positivos negativos neutros colores_gauge objetivo_positivo titulo
        mostrar_desglose]
    by (simp add: Let_def)
next
  fix fig
  assume a: "grafico_kpi_sentimiento positivos negativos neutros objetivo_positivo titulo
                mostrar_desglose colores_gauge = Inr fig"
  from grafico_Inr_shape[OF a] obtain m barra where
    f: "fig = layout_final
                   (if mostrar_desglose
                    then add_annotation
                           (Figure (crear_gauge (pct_positivo m) objetivo_positivo titulo barra
                              (colores_en_uso colores_gauge ! 2) (colores_en_uso colores_gauge ! 0)))
                           (anotacion_desglose
                              (desglose_texto positivos negativos neutros m objetivo_positivo))
                    else Figure (crear_gauge (pct_positivo m) objetivo_positivo titulo barra
                              (colores_en_uso colores_gauge ! 2) (colores_en_uso colores_gauge ! 0)))"
    by blast
  define ind where "ind = crear_gauge (pct_positivo m) objetivo_positivo titulo barra
                              (colores_en_uso colores_gauge ! 2) (colores_en_uso colores_gauge ! 0)"
  have fd: "fig_data fig = [ind]"
    unfolding f ind_def by (simp add: fig_data_simps)
  have z: "map step_range zonas_fondo = [[0, 40], [40, 70], [70, 100]]"
    by (simp add: zonas_fondo_def)
  have "map step_range (gauge_steps (ind_gauge ind)) = [[0, 40], [40, 70], [70, 100]] \<and>
         axis_range (gauge_axis (ind_gauge ind)) = [0, 100] \<and>
         axis_tick0 (gauge_axis (ind_gauge ind)) = 0 \<and>
         axis_dtick (gauge_axis (ind_gauge ind)) = 20 \<and>
         threshold_value (gauge_threshold (ind_gauge ind)) = objetivo_positivo"
    unfolding ind_def by (simp only: crear_gauge_sel z)
  with fd show "\<exists>ind. fig_data fig = [ind] \<and>
         map step_range (gauge_steps (ind_gauge ind)) = [[0, 40], [40, 70], [70, 100]] \<and>
         axis_range (gauge_axis (ind_gauge ind)) = [0, 100] \<and>
         axis_tick0 (gauge_axis (ind_gauge ind)) = 0 \<and>
         axis_dtick (gauge_axis (ind_gauge ind)) = 20 \<and>
         threshold_value (gauge_threshold (ind_gauge ind)) = objetivo_positivo"
    by (intro exI[of _ ind]) simp
qed

theorem C6_witness:
  "\<exists>fig ind. grafico_kpi_sentimiento 120 30 50 90 titulo_por_defecto True None = Inr fig \<and>
      fig_data fig = [ind] \<and>
      map step_range (gauge_steps (ind_gauge ind)) = [[0, 40], [40, 70], [70, 100]] \<and>
      axis_range (gauge_axis (ind_gauge ind)) = [0, 100] \<and>
      axis_dtick (gauge_axis (ind_gauge ind)) = 20 \<and>
      threshold_value (gauge_threshold (ind_gauge ind)) = 90"
proof -
  have h: "(120::int) + 30 + 50 \<noteq> 0 \<and> 3 \<le> length (colores_en_uso None)"
    by (simp add: colores_en_uso_def colores_default_def)
  note c = C6_fixed_zones_axis_threshold [of 120 30 50 None 90 titulo_por_defecto True]
  from c h obtain fig where
    g: "grafico_kpi_sentimiento 120 30 50 90 titulo_por_defecto True None = Inr fig"
    by auto
  with c show ?thesis by auto
qed

subsection \<open>Inputs the builder does not validate\<close>

text \<open>
  C8. For a given list of fewer than three colours and a nonzero total (so for every
  positive one), the builder ends in IndexError and returns no figure: index 2, which
  the delta always reads, is out of range.
\<close>

theorem C8_short_colores_index_error:
  assumes "length colores < 3" and "positivos + negativos + neutros \<noteq> 0"
  shows "grafico_kpi_sentimiento positivos negativos neutros objetivo_positivo titulo
           mostrar_desglose (Some colores) = Inl IndexError \<and>
         py_index colores 2 = Inl IndexError"
  using assms grafico_short_colores[of positivos negativos neutros "Some colores"
      objetivo_positivo titulo mostrar_desglose]
  by (simp add: colores_en_uso_def py_index_def)

theorem C8_witness:
  "length [''#ff6b6b'', ''#ffd93d''] < 3 \<and> (120::int) + 30 + 50 \<noteq> 0 \<and>
   grafico_kpi_sentimiento 120 30 50 70 titulo_por_defecto True (Some [''#ff6b6b'', ''#ffd93d''])
     = Inl IndexError"
  using C8_short_colores_index_error [of "[''#ff6b6b'', ''#ffd93d'']" 120 30 50 70 titulo_por_defecto True]
  by simp

text \<open>
  C9. The zero check is an equality: a negative total passes it, and negative counts are
  not rejected. For positivos = -5, negativos = 3, neutros = 1 the total is -1, no error is
  raised, and the figure returned has the gauge value 500, outside [0, 100].
\<close>

theorem C9_negative_counts_accepted:
  "(positivos + negativos + neutros < 0 \<longrightarrow>
      (\<exists>m. calculo_metricas positivos negativos neutros = Inr m \<and> total m < 0)) \<and>
   (\<exists>fig ind. grafico_kpi_sentimiento (- 5) 3 1 objetivo_positivo titulo mostrar_desglose None
                 = Inr fig \<and>
      fig_data fig = [ind] \<and> ind_value ind = 500 \<and> 100 < ind_value ind) \<and>
   (\<exists>m. calculo_metricas (- 5) 3 1 = Inr m \<and> total m = - 1)"
proof (intro conjI impI)
  assume "positivos + negativos + neutros < 0"
  then show "\<exists>m. calculo_metricas positivos negativos neutros = Inr m \<and> total m < 0"
    by (simp add: calculo_metricas_def Let_def)
next
  have len: "3 \<le> length (colores_en_uso None)"
    by (simp add: colores_en_uso_def colores_default_def)
  obtain fig where
    g: "grafico_kpi_sentimiento (- 5) 3 1 objetivo_positivo titulo mostrar_desglose None
          = Inr fig"
    using grafico_returns[OF _ len, of "- 5" 3 1 objetivo_positivo titulo mostrar_desglose]
    by auto
  from grafico_Inr_indicator[OF g] obtain m ind where
    m: "calculo_metricas (- 5) 3 1 = Inr m" and fd: "fig_data fig = [ind]" and
    v: "ind_value ind = pct_positivo m"
    by auto
  have "calculo_metricas (- 5) 3 1 =
          Inr \<lparr>total = - 1, pct_positivo = 500, pct_negativo = - 300, pct_neutro = - 100\<rparr>"
    by code_simp
  with m have "pct_positivo m = 500" by auto
  with v have "ind_value ind = 500" by simp
  with g fd show "\<exists>fig ind. grafico_kpi_sentimiento (- 5) 3 1 objetivo_positivo titulo
          mostrar_desglose None = Inr fig \<and>
      fig_data fig = [ind] \<and> ind_value ind = 500 \<and> 100 < ind_value ind"
    by auto
next
  show "\<exists>m. calculo_metricas (- 5) 3 1 = Inr m \<and> total m = - 1"
    by (simp add: calculo_metricas_def Let_def)
qed

theorem C9_witness:
  "(- 5 :: int) + 3 + 1 < 0 \<and>
   (\<exists>m. calculo_metricas (- 5) 3 1 = Inr m \<and> total m < 0)"
  using C9_negative_counts_accepted [of "- 5" 3 1 70 titulo_por_defecto True] by simp

subsection \<open>The breakdown flag\<close>

text \<open>
  C10. The flag \<^verbatim>\<open>mostrar_desglose\<close> changes nothing but the annotation. If the call
  with the flag set fails, the call without it fails with the same error. If the call
  with the flag set returns a figure, the call without it returns that figure with the
  list of annotations emptied: same trace, same layout otherwise. The one annotation of
  the former carries the breakdown: the total, each count with its percentage to one
  decimal, and the target.
\<close>

theorem C10_desglose_only_annotation:
  "(\<forall>e. grafico_kpi_sentimiento positivos negativos neutros objetivo_positivo titulo
           True colores_gauge = Inl e \<longrightarrow>
        grafico_kpi_sentimiento positivos negativos neutros objetivo_positivo titulo
           False colores_gauge = Inl e) \<and>
   (\<forall>con. grafico_kpi_sentimiento positivos negativos neutros objetivo_positivo titulo
           True colores_gauge = Inr con \<longrightarrow>
      (\<exists>sin m a.
         grafico_kpi_sentimiento positivos negativos neutros objetivo_positivo titulo
           False colores_gauge = Inr sin \<and>
         sin = con\<lparr>fig_layout := (fig_layout con)\<lparr>lay_annotations := []\<rparr>\<rparr> \<and>
         fig_data sin = fig_data con \<and>
         lay_annotations (fig_layout sin) = [] \<and>
         lay_annotations (fig_layout con) = [a] \<and>
         calculo_metricas positivos negativos neutros = Inr m \<and>
         a = anotacion_desglose
               (desglose_texto positivos negativos neutros m objetivo_positivo) \<and>
         {FmtInt (positivos + negativos + neutros),
          FmtInt positivos, FmtFixed1 (pct_positivo m),
          FmtInt negativos, FmtFixed1 (pct_negativo m),
          FmtInt neutros, FmtFixed1 (pct_neutro m),
          FmtFloat objetivo_positivo} \<subseteq> set (ann_text a)))"
proof (intro conjI allI impI)
  fix e
  assume a: "grafico_kpi_sentimiento positivos negativos neutros objetivo_positivo titulo
           True colores_gauge = Inl e"
  show "grafico_kpi_sentimiento positivos negativos neutros objetivo_positivo titulo
           False colores_gauge = Inl e"
  proof (cases "positivos + negativos + neutros = 0")
    case True
    with a show ?thesis by (simp add: grafico_total_zero)
  next
    case nz: False
    show ?thesis
    proof (cases "length (colores_en_uso colores_gauge) < 3")
      case True
      with a nz show ?thesis by (simp add: grafico_short_colores)
    next
      case False
      then have "3 \<le> length (colores_en_uso colores_gauge)" by simp
      from grafico_ok[OF nz this, of objetivo_positivo titulo True] a
      show ?thesis by (simp add: Let_def)
    qed
  qed
next
  fix con
  assume a: "grafico_kpi_sentimiento positivos negativos neutros objetivo_positivo titulo
           True colores_gauge = Inr con"
  note nz = grafico_Inr_D(1)[OF a] and len = grafico_Inr_D(2)[OF a]
  from grafico_Inr_shape[OF a] obtain m barra where
    m: "calculo_metricas positivos negativos neutros = Inr m" and
    tm: "total m = positivos + negativos + neutros" and
    b: "barra = (if pct_positivo m \<ge> objetivo_positivo
                      then colores_en_uso colores_gauge ! 2
                    else if pct_positivo m \<ge> float_mul objetivo_positivo float_0_7
                      then colores_en_uso colores_gauge ! 1
                    else colores_en_uso colores_gauge ! 0)" and
    c: "con = layout_final
              (add_annotation
                 (Figure (crear_gauge (pct_positivo m) objetivo_positivo titulo barra
                    (colores_en_uso colores_gauge ! 2) (colores_en_uso colores_gauge ! 0)))
                 (anotacion_desglose
                    (desglose_texto positivos negativos neutros m objetivo_positivo)))"
    by auto
  define ind where "ind = crear_gauge (pct_positivo m) objetivo_positivo titulo barra
                    (colores_en_uso colores_gauge ! 2) (colores_en_uso colores_gauge ! 0)"
  define an where "an = anotacion_desglose
                    (desglose_texto positivos negativos neutros m objetivo_positivo)"
  define sin where "sin = layout_final (Figure ind)"
  have c': "con = layout_final (add_annotation (Figure ind) an)"
    unfolding c ind_def an_def ..
  obtain sin' where s': "grafico_kpi_sentimiento positivos negativos neutros objetivo_positivo
           titulo False colores_gauge = Inr sin'"
    using grafico_ok[OF nz len, of objetivo_positivo titulo False] by (simp add: Let_def)
  from grafico_Inr_shape[OF s'] m b have "sin' = sin"
    unfolding sin_def ind_def by auto
  with s' have s: "grafico_kpi_sentimiento positivos negativos neutros objetivo_positivo
           titulo False colores_gauge = Inr sin" by simp
  have eq: "sin = con\<lparr>fig_layout := (fig_layout con)\<lparr>lay_annotations := []\<rparr>\<rparr>"
    unfolding sin_def c'
    by (simp add: layout_final_def update_layout_def add_annotation_def Figure_def)
  have d: "fig_data sin = fig_data con"
    unfolding sin_def c' by (simp add: fig_data_simps)
  have a0: "lay_annotations (fig_layout sin) = []"
    unfolding sin_def by (simp add: layout_final_Figure_annotations)
  have a1: "lay_annotations (fig_layout con) = [an]"
    unfolding c' by (simp add: layout_final_def update_layout_def add_annotation_def Figure_def)
  have tx: "{FmtInt (positivos + negativos + neutros),
          FmtInt positivos, FmtFixed1 (pct_positivo m),
          FmtInt negativos, FmtFixed1 (pct_negativo m),
          FmtInt neutros, FmtFixed1 (pct_neutro m),
          FmtFloat objetivo_positivo} \<subseteq> set (ann_text an)"
    unfolding an_def using tm by (simp add: anotacion_desglose_def desglose_texto_def)
  show "\<exists>sin m a.
         grafico_kpi_sentimiento positivos negativos neutros objetivo_positivo titulo
           False colores_gauge = Inr sin \<and>
         sin = con\<lparr>fig_layout := (fig_layout con)\<lparr>lay_annotations := []\<rparr>\<rparr> \<and>
         fig_data sin = fig_data con \<and>
         lay_annotations (fig_layout sin) = [] \<and>
         lay_annotations (fig_layout con) = [a] \<and>
         calculo_metricas positivos negativos neutros = Inr m \<and>
         a = anotacion_desglose
               (desglose_texto positivos negativos neutros m objetivo_positivo) \<and>
         {FmtInt (positivos + negativos + neutros),
          FmtInt positivos, FmtFixed1 (pct_positivo m),
          FmtInt negativos, FmtFixed1 (pct_negativo m),
          FmtInt neutros, FmtFixed1 (pct_neutro m),
          FmtFloat objetivo_positivo} \<subseteq> set (ann_text a)"
    apply (rule exI[of _ sin], rule exI[of _ m], rule exI[of _ an])
    using s eq d a0 a1 m tx unfolding an_def by (intro conjI) simp_all
qed

theorem C10_witness:
  "\<exists>con sin a.
      grafico_kpi_sentimiento 120 30 50 70 titulo_por_defecto True None = Inr con \<and>
      grafico_kpi_sentimiento 120 30 50 70 titulo_por_defecto False None = Inr sin \<and>
      sin = con\<lparr>fig_layout := (fig_layout con)\<lparr>lay_annotations := []\<rparr>\<rparr> \<and>
      lay_annotations (fig_layout con) = [a] \<and>
      lay_annotations (fig_layout sin) = []"
proof -
  obtain con where h: "grafico_kpi_sentimiento 120 30 50 70 titulo_por_defecto True None = Inr con"
    using ejemplo_returns by auto
  from C10_desglose_only_annotation [of 120 30 50 70 titulo_por_defecto None] h show ?thesis by auto
qed

end
